theory Spec2Isabelle
  imports Complex_Main "HOL-Library.Stream"
begin

section \<open>BetafuncEvtVtxGenerator: the data model\<close>

text \<open>
  The model follows \<^verbatim>\<open>IOMC/EventVertexGenerators/src/BetafuncEvtVtxGenerator.cc\<close>.
  A C++ \<^verbatim>\<open>double\<close> is read as a real number: rounding, infinities and NaN are
  outside the model. Where the program divides by zero or takes the root of a
  negative number it gets an infinity or NaN, and HOL gets \<open>x / 0 = 0\<close> and
  \<open>sqrt (- x) = - sqrt x\<close>; a theorem whose content depends on such a value
  carries the hypothesis that excludes it.

  The members \<^verbatim>\<open>readDB_\<close>, \<^verbatim>\<open>boost_\<close> and \<^verbatim>\<open>parameterWatcher_\<close> are written
  \<open>readDB_m\<close>, \<open>boost_m\<close> and \<open>parameterWatcher_m\<close>: a name may not end in an
  underscore here.
\<close>

subsection \<open>Units\<close>

text \<open>
  \<^verbatim>\<open>cm\<close>, \<^verbatim>\<open>ns\<close>, \<^verbatim>\<open>radian\<close> and \<^verbatim>\<open>c_light\<close> are constants of the CLHEP headers
  \<^verbatim>\<open>SystemOfUnits.h\<close> and \<^verbatim>\<open>GlobalPhysicalConstants.h\<close>, which are not part of the
  sources at hand. They are taken as a parameter of every operation that scales
  a value at ingestion.
\<close>

record units =
  cm :: real
  ns :: real
  radian :: real
  c_light :: real

subsection \<open>The 4x4 matrix\<close>

text \<open>
  \<^verbatim>\<open>TMatrixD(4, 4)\<close>: sixteen doubles, \<open>eij\<close> is the entry \<^verbatim>\<open>(i, j)\<close>. The ROOT
  constructor fills the matrix with zeros.
\<close>

record TMatrixD =
  e00 :: real  e01 :: real  e02 :: real  e03 :: real
  e10 :: real  e11 :: real  e12 :: real  e13 :: real
  e20 :: real  e21 :: real  e22 :: real  e23 :: real
  e30 :: real  e31 :: real  e32 :: real  e33 :: real

definition TMatrixD_4_4 :: TMatrixD where
  "TMatrixD_4_4 =
     \<lparr>e00 = 0, e01 = 0, e02 = 0, e03 = 0,
      e10 = 0, e11 = 0, e12 = 0, e13 = 0,
      e20 = 0, e21 = 0, e22 = 0, e23 = 0,
      e30 = 0, e31 = 0, e32 = 0, e33 = 0\<rparr>"

subsection \<open>The generator object\<close>

text \<open>
  The data members of the class that the source file reads or writes. The watcher
  member holds the cache identifier of the record it has seen last.
\<close>

record BetafuncEvtVtxGenerator =
  readDB_m :: bool
  fX0 :: real
  fY0 :: real
  fZ0 :: real
  fSigmaZ :: real
  fbetastar :: real
  femittance :: real
  fTimeOffset :: real
  boost_m :: TMatrixD
  parameterWatcher_m :: nat

section \<open>The beta function\<close>

text \<open>
  \<^verbatim>\<open>double BetaFunction(double z, double z0) const\<close>, line 103. A \<^verbatim>\<open>const\<close> member
  function: it returns a value and leaves the object as it is.
\<close>

definition BetaFunction :: "BetafuncEvtVtxGenerator \<Rightarrow> real \<Rightarrow> real \<Rightarrow> real" where
  "BetaFunction g zpos z0 =
     sqrt (femittance g * (fbetastar g + (((zpos - z0) * (zpos - z0)) / fbetastar g)))"

section \<open>The vertex sampler\<close>

text \<open>
  Modelled from the spec: \<^verbatim>\<open>CLHEP::HepRandomEngine\<close> and \<^verbatim>\<open>CLHEP::RandGaussQ\<close>
  belong to the CLHEP library, which is not part of the sources at hand. The
  specification has a stateful source that yields a known sequence of Gaussian
  draws. The engine is the sequence of standard normal variates it is going to
  deliver, and
  \<^verbatim>\<open>RandGaussQ::shoot(engine, mean, stdDev)\<close> takes the next one, scales it by
  \<^verbatim>\<open>stdDev\<close>, shifts it by \<^verbatim>\<open>mean\<close> and leaves the engine one draw further.
\<close>

type_synonym HepRandomEngine = "real stream"

definition shoot :: "HepRandomEngine \<Rightarrow> real \<Rightarrow> real \<Rightarrow> real \<times> HepRandomEngine" where
  "shoot engine mean stdDev = (shd engine * stdDev + mean, stl engine)"

text \<open>\<^verbatim>\<open>ROOT::Math::XYZTVector(X, Y, Z, T)\<close>.\<close>

record XYZTVector =
  X :: real
  Y :: real
  Z :: real
  T :: real

text \<open>
  \<^verbatim>\<open>vertexShift\<close>, lines 81 to 101. The engine is passed by pointer and advanced by
  each call of \<^verbatim>\<open>shoot\<close>, so the model returns it beside the vector.
\<close>

definition vertexShift ::
  "BetafuncEvtVtxGenerator \<Rightarrow> HepRandomEngine \<Rightarrow> XYZTVector \<times> HepRandomEngine" where
  "vertexShift g engine =
     (let (tmp_sigz, engine1) = shoot engine 0 (fSigmaZ g);
          Zv = tmp_sigz + fZ0 g;
          tmp_sigx = BetaFunction g Zv (fZ0 g);
          tmp_sigx = tmp_sigx / sqrt 2;
          (xdraw, engine2) = shoot engine1 0 tmp_sigx;
          Xv = xdraw + fX0 g;
          tmp_sigy = BetaFunction g Zv (fZ0 g);
          tmp_sigy = tmp_sigy / sqrt 2;
          (ydraw, engine3) = shoot engine2 0 tmp_sigy;
          Yv = ydraw + fY0 g;
          (tmp_sigt, engine4) = shoot engine3 0 (fSigmaZ g);
          Tv = tmp_sigt + fTimeOffset g
      in (\<lparr>X = Xv, Y = Yv, Z = Zv, T = Tv\<rparr>, engine4))"

section \<open>The boost matrix\<close>

subsection \<open>Matrix product, unit matrix, determinant\<close>

definition unit4 :: TMatrixD where
  "unit4 =
     \<lparr>e00 = 1, e01 = 0, e02 = 0, e03 = 0,
      e10 = 0, e11 = 1, e12 = 0, e13 = 0,
      e20 = 0, e21 = 0, e22 = 1, e23 = 0,
      e30 = 0, e31 = 0, e32 = 0, e33 = 1\<rparr>"

definition mult4 :: "TMatrixD \<Rightarrow> TMatrixD \<Rightarrow> TMatrixD" where
  "mult4 a b =
     \<lparr>e00 = e00 a * e00 b + e01 a * e10 b + e02 a * e20 b + e03 a * e30 b,
      e01 = e00 a * e01 b + e01 a * e11 b + e02 a * e21 b + e03 a * e31 b,
      e02 = e00 a * e02 b + e01 a * e12 b + e02 a * e22 b + e03 a * e32 b,
      e03 = e00 a * e03 b + e01 a * e13 b + e02 a * e23 b + e03 a * e33 b,
      e10 = e10 a * e00 b + e11 a * e10 b + e12 a * e20 b + e13 a * e30 b,
      e11 = e10 a * e01 b + e11 a * e11 b + e12 a * e21 b + e13 a * e31 b,
      e12 = e10 a * e02 b + e11 a * e12 b + e12 a * e22 b + e13 a * e32 b,
      e13 = e10 a * e03 b + e11 a * e13 b + e12 a * e23 b + e13 a * e33 b,
      e20 = e20 a * e00 b + e21 a * e10 b + e22 a * e20 b + e23 a * e30 b,
      e21 = e20 a * e01 b + e21 a * e11 b + e22 a * e21 b + e23 a * e31 b,
      e22 = e20 a * e02 b + e21 a * e12 b + e22 a * e22 b + e23 a * e32 b,
      e23 = e20 a * e03 b + e21 a * e13 b + e22 a * e23 b + e23 a * e33 b,
      e30 = e30 a * e00 b + e31 a * e10 b + e32 a * e20 b + e33 a * e30 b,
      e31 = e30 a * e01 b + e31 a * e11 b + e32 a * e21 b + e33 a * e31 b,
      e32 = e30 a * e02 b + e31 a * e12 b + e32 a * e22 b + e33 a * e32 b,
      e33 = e30 a * e03 b + e31 a * e13 b + e32 a * e23 b + e33 a * e33 b\<rparr>"

text \<open>
  The 2x2 minors of the upper two rows (\<open>s\<close>) and of the lower two rows (\<open>c\<close>), from
  which the determinant and the adjugate are put together.
\<close>

definition s0 :: "TMatrixD \<Rightarrow> real" where "s0 a = e00 a * e11 a - e10 a * e01 a"
definition s1 :: "TMatrixD \<Rightarrow> real" where "s1 a = e00 a * e12 a - e10 a * e02 a"
definition s2 :: "TMatrixD \<Rightarrow> real" where "s2 a = e00 a * e13 a - e10 a * e03 a"
definition s3 :: "TMatrixD \<Rightarrow> real" where "s3 a = e01 a * e12 a - e11 a * e02 a"
definition s4 :: "TMatrixD \<Rightarrow> real" where "s4 a = e01 a * e13 a - e11 a * e03 a"
definition s5 :: "TMatrixD \<Rightarrow> real" where "s5 a = e02 a * e13 a - e12 a * e03 a"
definition c0 :: "TMatrixD \<Rightarrow> real" where "c0 a = e20 a * e31 a - e30 a * e21 a"
definition c1 :: "TMatrixD \<Rightarrow> real" where "c1 a = e20 a * e32 a - e30 a * e22 a"
definition c2 :: "TMatrixD \<Rightarrow> real" where "c2 a = e20 a * e33 a - e30 a * e23 a"
definition c3 :: "TMatrixD \<Rightarrow> real" where "c3 a = e21 a * e32 a - e31 a * e22 a"
definition c4 :: "TMatrixD \<Rightarrow> real" where "c4 a = e21 a * e33 a - e31 a * e23 a"
definition c5 :: "TMatrixD \<Rightarrow> real" where "c5 a = e22 a * e33 a - e32 a * e23 a"

definition det4 :: "TMatrixD \<Rightarrow> real" where
  "det4 a = s0 a * c5 a - s1 a * c4 a + s2 a * c3 a + s3 a * c2 a - s4 a * c1 a + s5 a * c0 a"

definition adj4 :: "TMatrixD \<Rightarrow> TMatrixD" where
  "adj4 a =
     \<lparr>e00 =   e11 a * c5 a - e12 a * c4 a + e13 a * c3 a,
      e01 = - e01 a * c5 a + e02 a * c4 a - e03 a * c3 a,
      e02 =   e31 a * s5 a - e32 a * s4 a + e33 a * s3 a,
      e03 = - e21 a * s5 a + e22 a * s4 a - e23 a * s3 a,
      e10 = - e10 a * c5 a + e12 a * c2 a - e13 a * c1 a,
      e11 =   e00 a * c5 a - e02 a * c2 a + e03 a * c1 a,
      e12 = - e30 a * s5 a + e32 a * s2 a - e33 a * s1 a,
      e13 =   e20 a * s5 a - e22 a * s2 a + e23 a * s1 a,
      e20 =   e10 a * c4 a - e11 a * c2 a + e13 a * c0 a,
      e21 = - e00 a * c4 a + e01 a * c2 a - e03 a * c0 a,
      e22 =   e30 a * s4 a - e31 a * s2 a + e33 a * s0 a,
      e23 = - e20 a * s4 a + e21 a * s2 a - e23 a * s0 a,
      e30 = - e10 a * c3 a + e11 a * c1 a - e12 a * c0 a,
      e31 =   e00 a * c3 a - e01 a * c1 a + e02 a * c0 a,
      e32 = - e30 a * s3 a + e31 a * s1 a - e32 a * s0 a,
      e33 =   e20 a * s3 a - e21 a * s1 a + e22 a * s0 a\<rparr>"

definition scale4 :: "real \<Rightarrow> TMatrixD \<Rightarrow> TMatrixD" where
  "scale4 k a =
     \<lparr>e00 = k * e00 a, e01 = k * e01 a, e02 = k * e02 a, e03 = k * e03 a,
      e10 = k * e10 a, e11 = k * e11 a, e12 = k * e12 a, e13 = k * e13 a,
      e20 = k * e20 a, e21 = k * e21 a, e22 = k * e22 a, e23 = k * e23 a,
      e30 = k * e30 a, e31 = k * e31 a, e32 = k * e32 a, e33 = k * e33 a\<rparr>"

subsection \<open>Inversion\<close>

text \<open>
  Modelled from the spec: \<^verbatim>\<open>TMatrixD::Invert\<close> belongs to the ROOT library, which is
  not part of the sources at hand. The specification calls it the general 4x4
  matrix inverse, by Gauss-Jordan elimination or cofactor expansion, and leaves the
  result for a singular matrix open. Here it is the cofactor expansion, the adjugate
  divided by the determinant; a singular matrix is handed back as it came.
\<close>

definition Invert :: "TMatrixD \<Rightarrow> TMatrixD" where
  "Invert a = (if det4 a = 0 then a else scale4 (1 / det4 a) (adj4 a))"

subsection \<open>setBoost\<close>

text \<open>
  Lines 110 to 133: the matrix \<^verbatim>\<open>tmpboost\<close> after its sixteen assignments, before
  the inversion.
\<close>

definition tmpboost :: "real \<Rightarrow> real \<Rightarrow> TMatrixD" where
  "tmpboost alpha phi =
     TMatrixD_4_4
     \<lparr>e00 := 1 / cos phi,
      e01 := - cos alpha * sin phi,
      e02 := - tan phi * sin phi,
      e03 := - sin alpha * sin phi,
      e10 := - cos alpha * tan phi,
      e11 := 1,
      e12 := cos alpha * tan phi,
      e13 := 0,
      e20 := 0,
      e21 := - cos alpha * sin phi,
      e22 := cos phi,
      e23 := - sin alpha * sin phi,
      e30 := - sin alpha * tan phi,
      e31 := 0,
      e32 := sin alpha * tan phi,
      e33 := 1\<rparr>"

text \<open>\<^verbatim>\<open>setBoost\<close>, lines 107 to 138: \<^verbatim>\<open>tmpboost.Invert(); boost_ = tmpboost;\<close>\<close>

definition setBoost ::
  "real \<Rightarrow> real \<Rightarrow> BetafuncEvtVtxGenerator \<Rightarrow> BetafuncEvtVtxGenerator" where
  "setBoost alpha phi g = g\<lparr>boost_m := Invert (tmpboost alpha phi)\<rparr>"

text \<open>\<^verbatim>\<open>GetInvLorentzBoost\<close>, line 149: what callers see of the matrix.\<close>

definition GetInvLorentzBoost :: "BetafuncEvtVtxGenerator \<Rightarrow> TMatrixD" where
  "GetInvLorentzBoost g = boost_m g"

section \<open>Configuration, refresh and the setter\<close>

text \<open>The two categories of \<^verbatim>\<open>cms::Exception\<close> that the file throws.\<close>

datatype Exception = Configuration | LogicError

text \<open>
  \<^verbatim>\<open>edm::ParameterSet\<close>, as \<^verbatim>\<open>fillDescriptions\<close> (lines 151 to 165) declares it: nine
  doubles and the flag \<^verbatim>\<open>readDB\<close>. The tag \<^verbatim>\<open>src\<close> is read by the base class only.
\<close>

record ParameterSet =
  X0 :: real
  Y0 :: real
  Z0 :: real
  SigmaZ :: real
  BetaStar :: real
  Emittance :: real
  Alpha :: real
  Phi :: real
  TimeOffset :: real
  readDB :: bool

text \<open>
  The constructor, lines 32 to 54. \<open>g0\<close> is the object before the constructor body
  runs: its double members hold whatever the memory holds. The member initialisers
  give the zero matrix and a watcher that has seen no record. An exception leaves
  no object behind, so the result is the exception or the object. The constructor
  of the base class \<^verbatim>\<open>BaseEvtVtxGenerator\<close> and the registration of the token are
  left out: they touch none of the members below.
\<close>

definition BetafuncEvtVtxGenerator_ctor ::
  "units \<Rightarrow> ParameterSet \<Rightarrow> BetafuncEvtVtxGenerator \<Rightarrow> Exception + BetafuncEvtVtxGenerator" where
  "BetafuncEvtVtxGenerator_ctor u p g0 =
     (let g = g0\<lparr>boost_m := TMatrixD_4_4, parameterWatcher_m := 0\<rparr>;
          g = g\<lparr>readDB_m := readDB p\<rparr>
      in if \<not> readDB_m g then
           (let g = g\<lparr>fX0 := X0 p * cm u\<rparr>;
                g = g\<lparr>fY0 := Y0 p * cm u\<rparr>;
                g = g\<lparr>fZ0 := Z0 p * cm u\<rparr>;
                g = g\<lparr>fSigmaZ := SigmaZ p * cm u\<rparr>;
                g = g\<lparr>fbetastar := BetaStar p * cm u\<rparr>;
                g = g\<lparr>femittance := Emittance p * cm u\<rparr>;
                g = g\<lparr>fTimeOffset := TimeOffset p * ns u * c_light u\<rparr>;
                g = setBoost (Alpha p * radian u) (Phi p * radian u) g
            in if fSigmaZ g \<le> 0 then Inl Configuration else Inr g)
         else Inr g)"

text \<open>
  \<^verbatim>\<open>SimBeamSpotObjects\<close>, the record of the conditions database, through the
  accessors that \<^verbatim>\<open>update\<close> calls. The accessor \<^verbatim>\<open>x()\<close> is the field \<open>beam_x\<close>, and
  so on: \<^verbatim>\<open>sigmaZ\<close> is also the name of the setter below.
\<close>

record SimBeamSpotObjects =
  beam_x :: real
  beam_y :: real
  beam_z :: real
  beam_sigmaZ :: real
  beam_timeOffset :: real
  beam_betaStar :: real
  beam_emittance :: real
  beam_alpha :: real
  beam_phi :: real
  isGaussian :: bool

text \<open>
  What \<^verbatim>\<open>update\<close> reads of the \<^verbatim>\<open>edm::EventSetup\<close>: the beam spot record and the
  cache identifier that tells one validity interval of the record from the next.
\<close>

record EventSetup =
  cacheIdentifier :: nat
  beamSpot :: SimBeamSpotObjects

text \<open>
  Modelled from the spec: \<^verbatim>\<open>edm::ESWatcher::check\<close> is declared in
  \<^verbatim>\<open>FWCore/Framework/interface/ESWatcher.h\<close>, which is not among the sources at hand.
  The specification describes a guarded update: the watcher holds a cached
  validity key, reports a change when the source shows a new key, and holds the new
  key from then on.
\<close>

definition check :: "EventSetup \<Rightarrow> BetafuncEvtVtxGenerator \<Rightarrow> bool \<times> BetafuncEvtVtxGenerator" where
  "check iEventSetup g =
     (parameterWatcher_m g \<noteq> cacheIdentifier iEventSetup,
      g\<lparr>parameterWatcher_m := cacheIdentifier iEventSetup\<rparr>)"

text \<open>
  \<^verbatim>\<open>update\<close>, lines 60 to 79. The object outlives an exception thrown by a member
  function, so the result is the exception, if any, beside the object as the call
  leaves it. The watcher is asked only when \<^verbatim>\<open>readDB_\<close> holds, as \<^verbatim>\<open>&&\<close> has it.
\<close>

definition update ::
  "units \<Rightarrow> EventSetup \<Rightarrow> BetafuncEvtVtxGenerator \<Rightarrow> Exception option \<times> BetafuncEvtVtxGenerator" where
  "update u iEventSetup g =
     (if readDB_m g then
        (let (changed, g) = check iEventSetup g
         in if changed then
              (let beamhandle = beamSpot iEventSetup
               in if \<not> isGaussian beamhandle then
                    (let g = g\<lparr>fX0 := beam_x beamhandle * cm u\<rparr>;
                         g = g\<lparr>fY0 := beam_y beamhandle * cm u\<rparr>;
                         g = g\<lparr>fZ0 := beam_z beamhandle * cm u\<rparr>;
                         g = g\<lparr>fSigmaZ := beam_sigmaZ beamhandle * cm u\<rparr>;
                         g = g\<lparr>fTimeOffset := beam_timeOffset beamhandle * ns u * c_light u\<rparr>;
                         g = g\<lparr>fbetastar := beam_betaStar beamhandle * cm u\<rparr>;
                         g = g\<lparr>femittance := beam_emittance beamhandle * cm u\<rparr>;
                         g = setBoost (beam_alpha beamhandle * radian u) (beam_phi beamhandle * radian u) g
                     in (None, g))
                  else (Some Configuration, g))
            else (None, g))
      else (None, g))"

text \<open>\<^verbatim>\<open>beginLuminosityBlock\<close>, lines 56 to 58.\<close>

definition beginLuminosityBlock ::
  "units \<Rightarrow> EventSetup \<Rightarrow> BetafuncEvtVtxGenerator \<Rightarrow> Exception option \<times> BetafuncEvtVtxGenerator" where
  "beginLuminosityBlock u iEventSetup g = update u iEventSetup g"

text \<open>The setter \<^verbatim>\<open>sigmaZ(double s)\<close>, lines 140 to 147.\<close>

definition sigmaZ :: "real \<Rightarrow> BetafuncEvtVtxGenerator \<Rightarrow> Exception option \<times> BetafuncEvtVtxGenerator" where
  "sigmaZ s g = (if s \<ge> 0 then (None, g\<lparr>fSigmaZ := s\<rparr>) else (Some LogicError, g))"

text \<open>
  The units of CLHEP, for the concrete runs below: lengths in millimetres, times in
  nanoseconds, angles in radians.
\<close>

definition CLHEP_units :: units where
  "CLHEP_units = \<lparr>cm = 10, ns = 1, radian = 1, c_light = 299.792458\<rparr>"

text \<open>
  The object of the specification's sampling example: reference position and time
  offset zero, \<open>sigmaZ = 5.3\<close>, \<open>betaStar = 55\<close>, \<open>emittance = 5.03e-8\<close>, no crossing
  angle.
\<close>

definition nominal :: BetafuncEvtVtxGenerator where
  "nominal =
     \<lparr>readDB_m = False, fX0 = 0, fY0 = 0, fZ0 = 0, fSigmaZ = 5.3, fbetastar = 55,
      femittance = 5.03 / 10 ^ 8, fTimeOffset = 0, boost_m = unit4,
      parameterWatcher_m = 0\<rparr>"

section \<open>Properties of the beta function\<close>

text \<open>
  C2. For a beta star other than zero, \<open>BetaFunction\<close> is the root of
  \<open>emittance * (betaStar + (z - z0)\<^sup>2 / betaStar)\<close>. Its value depends on the
  members \<open>femittance\<close> and \<open>fbetastar\<close> alone: overwriting every other member of the
  object leaves it as it is. It returns a number and no object, so it has no effect.
\<close>

theorem BetaFunction_closed_form:
  "fbetastar g \<noteq> 0 \<Longrightarrow>
     BetaFunction g zpos zorig
       = sqrt (femittance g * (fbetastar g + (zpos - zorig)\<^sup>2 / fbetastar g))
     \<and> BetaFunction
          (g\<lparr>readDB_m := r, fX0 := xn, fY0 := yn, fZ0 := zn, fSigmaZ := sn,
             fTimeOffset := tn, boost_m := b, parameterWatcher_m := k\<rparr>) zpos zorig
       = BetaFunction g zpos zorig"
  by (simp add: BetaFunction_def power2_eq_square)

theorem BetaFunction_closed_form_witness:
  "fbetastar nominal \<noteq> 0
   \<and> BetaFunction nominal 55 0 = sqrt (5.03 / 10 ^ 8 * (55 + 55))
   \<and> BetaFunction (nominal\<lparr>readDB_m := True, fX0 := 1, fY0 := 2, fZ0 := 3, fSigmaZ := 4,
          fTimeOffset := 5, boost_m := TMatrixD_4_4, parameterWatcher_m := 6\<rparr>) 55 0
       = BetaFunction nominal 55 0"
proof -
  have nz: "fbetastar nominal \<noteq> 0"
    by (simp add: nominal_def)
  from BetaFunction_closed_form [where g = nominal and zpos = 55 and zorig = 0 and r = True
      and xn = 1 and yn = 2 and zn = 3 and sn = 4 and tn = 5 and b = TMatrixD_4_4
      and k = 6, OF nz] nz
  show ?thesis
    by (simp add: nominal_def power2_eq_square)
qed

text \<open>
  C9. For a positive beta star and an emittance that is not negative, the width
  is not negative at any \<open>z\<close>, and at the interaction point \<open>z = z0\<close> it is the root
  of \<open>emittance * betaStar\<close>.
\<close>

theorem BetaFunction_nonneg:
  "0 < fbetastar g \<Longrightarrow> 0 \<le> femittance g \<Longrightarrow>
     0 \<le> BetaFunction g zpos zorig
     \<and> BetaFunction g zorig zorig = sqrt (femittance g * fbetastar g)"
  by (simp add: BetaFunction_def)

theorem BetaFunction_nonneg_witness:
  "0 < fbetastar nominal \<and> 0 \<le> femittance nominal
   \<and> 0 \<le> BetaFunction nominal 3 1
   \<and> BetaFunction nominal 1 1 = sqrt (5.03 / 10 ^ 8 * 55)"
proof -
  have pos: "0 < fbetastar nominal" and nonneg: "0 \<le> femittance nominal"
    by (simp_all add: nominal_def)
  from BetaFunction_nonneg [OF pos nonneg, of 3 1] BetaFunction_nonneg [OF pos nonneg, of 1 1]
  show ?thesis
    using pos nonneg by (simp add: nominal_def)
qed

section \<open>Properties of the vertex sampler\<close>

text \<open>
  C1. With the four draws \<open>dz\<close>, \<open>dx\<close>, \<open>dy\<close>, \<open>dt\<close> taken in this order,
  \<open>vertexShift\<close> returns \<open>Z = dz * sigmaZ + z0\<close>,
  \<open>X = dx * (width / sqrt 2) + x0\<close>, \<open>Y = dy * (width / sqrt 2) + y0\<close> with the
  width of the beta function at that \<open>Z\<close>, and \<open>T = dt * sigmaZ + timeOffset\<close>. The
  engine comes back exactly four draws further. The boost matrix, the only place
  where the crossing angles are kept, has no influence on the result. On the
  object of the specification's example the draws \<open>1, 1, 1, 1\<close> give \<open>Z = T = 5.3\<close>
  and \<open>X = Y = sqrt (emittance * (betaStar + 5.3\<^sup>2 / betaStar)) / sqrt 2\<close>.
\<close>

theorem vertexShift_four_draws:
  "vertexShift g (dz ## dx ## dy ## dt ## engine)
     = (\<lparr>X = dx * (BetaFunction g (dz * fSigmaZ g + fZ0 g) (fZ0 g) / sqrt 2) + fX0 g,
         Y = dy * (BetaFunction g (dz * fSigmaZ g + fZ0 g) (fZ0 g) / sqrt 2) + fY0 g,
         Z = dz * fSigmaZ g + fZ0 g,
         T = dt * fSigmaZ g + fTimeOffset g\<rparr>, engine)
   \<and> snd (vertexShift g engine) = stl (stl (stl (stl engine)))
   \<and> vertexShift (g\<lparr>boost_m := b\<rparr>) engine = vertexShift g engine
   \<and> vertexShift nominal (1 ## 1 ## 1 ## 1 ## engine)
     = (\<lparr>X = sqrt (5.03 / 10 ^ 8 * (55 + (5.3)\<^sup>2 / 55)) / sqrt 2,
         Y = sqrt (5.03 / 10 ^ 8 * (55 + (5.3)\<^sup>2 / 55)) / sqrt 2,
         Z = 5.3, T = 5.3\<rparr>, engine)"
  by (simp add: vertexShift_def shoot_def BetaFunction_def nominal_def power2_eq_square)

section \<open>Properties of configuration, refresh and the setter\<close>

text \<open>
  C4. A static configuration, \<open>readDB\<close> false, with a positive centimetre: the
  constructor throws exactly when the given \<open>SigmaZ\<close> is zero or negative, the
  exception is of category \<open>Configuration\<close>, and with \<open>SigmaZ = 1\<close> the object is built.
\<close>

theorem ctor_static_SigmaZ:
  "0 < cm u \<Longrightarrow> \<not> readDB p \<Longrightarrow>
     (BetafuncEvtVtxGenerator_ctor u p g0 = Inl Configuration) = (SigmaZ p \<le> 0)
     \<and> isl (BetafuncEvtVtxGenerator_ctor u p g0) = (SigmaZ p \<le> 0)
     \<and> \<not> isl (BetafuncEvtVtxGenerator_ctor u (p\<lparr>SigmaZ := 1\<rparr>) g0)"
  by (simp add: BetafuncEvtVtxGenerator_ctor_def setBoost_def Let_def mult_le_0_iff not_less)

theorem ctor_static_SigmaZ_witness:
  "0 < cm CLHEP_units
   \<and> \<not> readDB \<lparr>X0 = 0, Y0 = 0, Z0 = 0, SigmaZ = 0, BetaStar = 0, Emittance = 0,
                 Alpha = 0, Phi = 0, TimeOffset = 0, readDB = False\<rparr>
   \<and> BetafuncEvtVtxGenerator_ctor CLHEP_units
         \<lparr>X0 = 0, Y0 = 0, Z0 = 0, SigmaZ = 0, BetaStar = 0, Emittance = 0,
          Alpha = 0, Phi = 0, TimeOffset = 0, readDB = False\<rparr> nominal = Inl Configuration
   \<and> \<not> isl (BetafuncEvtVtxGenerator_ctor CLHEP_units
         \<lparr>X0 = 0, Y0 = 0, Z0 = 0, SigmaZ = 1, BetaStar = 0, Emittance = 0,
          Alpha = 0, Phi = 0, TimeOffset = 0, readDB = False\<rparr> nominal)"
proof -
  have u: "0 < cm CLHEP_units"
    by (simp add: CLHEP_units_def)
  have p: "\<not> readDB \<lparr>X0 = 0, Y0 = 0, Z0 = 0, SigmaZ = 0, BetaStar = 0, Emittance = 0,
                 Alpha = 0, Phi = 0, TimeOffset = 0, readDB = False\<rparr>"
    by simp
  from ctor_static_SigmaZ [OF u p, of nominal] u p
  show ?thesis
    by simp
qed

text \<open>
  C6. The setter throws a \<open>LogicError\<close> exactly for a negative value and then
  leaves the object as it is; otherwise it stores the value in \<open>fSigmaZ\<close> and
  changes no other member. Zero is accepted.
\<close>

theorem sigmaZ_setter:
  "sigmaZ v g = (if v < 0 then (Some LogicError, g) else (None, g\<lparr>fSigmaZ := v\<rparr>))
   \<and> (fst (sigmaZ v g) = Some LogicError) = (v < 0)
   \<and> sigmaZ 0 g = (None, g\<lparr>fSigmaZ := 0\<rparr>)
   \<and> boost_m (snd (sigmaZ v g)) = boost_m g"
  by (simp add: sigmaZ_def not_le)

text \<open>
  C5. The object reads from the database and the watcher reports a new record. If
  the record is Gaussian, \<open>update\<close> throws an exception of category
  \<open>Configuration\<close>, and the object it leaves differs from the one before in the
  watcher's cache identifier alone: every parameter and the boost matrix are as
  they were.
\<close>

theorem update_Gaussian:
  "readDB_m g \<Longrightarrow> parameterWatcher_m g \<noteq> cacheIdentifier es \<Longrightarrow> isGaussian (beamSpot es) \<Longrightarrow>
     update u es g = (Some Configuration, g\<lparr>parameterWatcher_m := cacheIdentifier es\<rparr>)
     \<and> fX0 (snd (update u es g)) = fX0 g
     \<and> fY0 (snd (update u es g)) = fY0 g
     \<and> fZ0 (snd (update u es g)) = fZ0 g
     \<and> fSigmaZ (snd (update u es g)) = fSigmaZ g
     \<and> fbetastar (snd (update u es g)) = fbetastar g
     \<and> femittance (snd (update u es g)) = femittance g
     \<and> fTimeOffset (snd (update u es g)) = fTimeOffset g
     \<and> GetInvLorentzBoost (snd (update u es g)) = GetInvLorentzBoost g"
  by (simp add: update_def check_def GetInvLorentzBoost_def)

theorem update_Gaussian_witness:
  "readDB_m (nominal\<lparr>readDB_m := True\<rparr>)
   \<and> parameterWatcher_m (nominal\<lparr>readDB_m := True\<rparr>) \<noteq> cacheIdentifier
        \<lparr>cacheIdentifier = 1,
         beamSpot = \<lparr>beam_x = 1, beam_y = 2, beam_z = 3, beam_sigmaZ = 4, beam_timeOffset = 5,
           beam_betaStar = 6, beam_emittance = 7, beam_alpha = 0, beam_phi = 0, isGaussian = True\<rparr>\<rparr>
   \<and> update CLHEP_units
        \<lparr>cacheIdentifier = 1,
         beamSpot = \<lparr>beam_x = 1, beam_y = 2, beam_z = 3, beam_sigmaZ = 4, beam_timeOffset = 5,
           beam_betaStar = 6, beam_emittance = 7, beam_alpha = 0, beam_phi = 0, isGaussian = True\<rparr>\<rparr>
        (nominal\<lparr>readDB_m := True\<rparr>)
      = (Some Configuration, nominal\<lparr>readDB_m := True, parameterWatcher_m := 1\<rparr>)"
proof -
  let ?es = "\<lparr>cacheIdentifier = 1,
         beamSpot = \<lparr>beam_x = 1, beam_y = 2, beam_z = 3, beam_sigmaZ = 4, beam_timeOffset = 5,
           beam_betaStar = 6, beam_emittance = 7, beam_alpha = 0, beam_phi = 0, isGaussian = True\<rparr>\<rparr>"
  let ?g = "nominal\<lparr>readDB_m := True\<rparr>"
  have a: "readDB_m ?g"
    by simp
  have b: "parameterWatcher_m ?g \<noteq> cacheIdentifier ?es"
    by (simp add: nominal_def)
  have c: "isGaussian (beamSpot ?es)"
    by simp
  from update_Gaussian [OF a b c, of CLHEP_units] a b
  show ?thesis
    by simp
qed

text \<open>
  C10. The object reads from the database and the watcher reports a new record.
  If the record is not Gaussian, \<open>update\<close> throws nothing, whatever the numbers in
  the record are: it stores every parameter, scaled, and the inverse of the matrix
  built from the record's angles. A \<open>sigmaZ\<close> of zero or below is stored like any
  other, where the constructor throws on a static configuration with such a
  \<open>SigmaZ\<close>.
\<close>

theorem update_no_range_check:
  "readDB_m g \<Longrightarrow> parameterWatcher_m g \<noteq> cacheIdentifier es \<Longrightarrow> \<not> isGaussian (beamSpot es) \<Longrightarrow>
     update u es g =
       (None,
        g\<lparr>parameterWatcher_m := cacheIdentifier es,
          fX0 := beam_x (beamSpot es) * cm u,
          fY0 := beam_y (beamSpot es) * cm u,
          fZ0 := beam_z (beamSpot es) * cm u,
          fSigmaZ := beam_sigmaZ (beamSpot es) * cm u,
          fTimeOffset := beam_timeOffset (beamSpot es) * ns u * c_light u,
          fbetastar := beam_betaStar (beamSpot es) * cm u,
          femittance := beam_emittance (beamSpot es) * cm u,
          boost_m := Invert (tmpboost (beam_alpha (beamSpot es) * radian u)
                                      (beam_phi (beamSpot es) * radian u))\<rparr>)
     \<and> fSigmaZ (snd (update u es g)) = beam_sigmaZ (beamSpot es) * cm u
     \<and> (\<not> readDB p \<and> SigmaZ p * cm u \<le> 0 \<longrightarrow>
          BetafuncEvtVtxGenerator_ctor u p g0 = Inl Configuration)"
  by (simp add: update_def check_def setBoost_def BetafuncEvtVtxGenerator_ctor_def Let_def)

theorem update_no_range_check_witness:
  "readDB_m (nominal\<lparr>readDB_m := True\<rparr>)
   \<and> parameterWatcher_m (nominal\<lparr>readDB_m := True\<rparr>) \<noteq> cacheIdentifier
        \<lparr>cacheIdentifier = 1,
         beamSpot = \<lparr>beam_x = 1, beam_y = 2, beam_z = 3, beam_sigmaZ = - 1, beam_timeOffset = 5,
           beam_betaStar = 6, beam_emittance = 7, beam_alpha = 0, beam_phi = 0, isGaussian = False\<rparr>\<rparr>
   \<and> fst (update CLHEP_units
        \<lparr>cacheIdentifier = 1,
         beamSpot = \<lparr>beam_x = 1, beam_y = 2, beam_z = 3, beam_sigmaZ = - 1, beam_timeOffset = 5,
           beam_betaStar = 6, beam_emittance = 7, beam_alpha = 0, beam_phi = 0, isGaussian = False\<rparr>\<rparr>
        (nominal\<lparr>readDB_m := True\<rparr>)) = None
   \<and> fSigmaZ (snd (update CLHEP_units
        \<lparr>cacheIdentifier = 1,
         beamSpot = \<lparr>beam_x = 1, beam_y = 2, beam_z = 3, beam_sigmaZ = - 1, beam_timeOffset = 5,
           beam_betaStar = 6, beam_emittance = 7, beam_alpha = 0, beam_phi = 0, isGaussian = False\<rparr>\<rparr>
        (nominal\<lparr>readDB_m := True\<rparr>))) = - 10
   \<and> BetafuncEvtVtxGenerator_ctor CLHEP_units
         \<lparr>X0 = 1, Y0 = 2, Z0 = 3, SigmaZ = - 1, BetaStar = 6, Emittance = 7,
          Alpha = 0, Phi = 0, TimeOffset = 5, readDB = False\<rparr> nominal = Inl Configuration"
proof -
  let ?es = "\<lparr>cacheIdentifier = 1,
         beamSpot = \<lparr>beam_x = 1, beam_y = 2, beam_z = 3, beam_sigmaZ = - 1, beam_timeOffset = 5,
           beam_betaStar = 6, beam_emittance = 7, beam_alpha = 0, beam_phi = 0, isGaussian = False\<rparr>\<rparr>"
  let ?g = "nominal\<lparr>readDB_m := True\<rparr>"
  let ?p = "\<lparr>X0 = 1, Y0 = 2, Z0 = 3, SigmaZ = - 1, BetaStar = 6, Emittance = 7,
          Alpha = 0, Phi = 0, TimeOffset = 5, readDB = False\<rparr>"
  have a: "readDB_m ?g"
    by simp
  have b: "parameterWatcher_m ?g \<noteq> cacheIdentifier ?es"
    by (simp add: nominal_def)
  have c: "\<not> isGaussian (beamSpot ?es)"
    by simp
  from update_no_range_check [OF a b c, of CLHEP_units ?p nominal] a b
  show ?thesis
    by (simp add: CLHEP_units_def)
qed

section \<open>Properties of the boost matrix\<close>

subsection \<open>The cofactor expansion inverts\<close>

lemmas minors =
  s0_def s1_def s2_def s3_def s4_def s5_def c0_def c1_def c2_def c3_def c4_def c5_def

lemma mult4_adj4: "mult4 a (adj4 a) = scale4 (det4 a) unit4"
  by (simp add: mult4_def adj4_def scale4_def unit4_def det4_def minors algebra_simps)

lemma adj4_mult4: "mult4 (adj4 a) a = scale4 (det4 a) unit4"
  by (simp add: mult4_def adj4_def scale4_def unit4_def det4_def minors algebra_simps)

lemma mult4_scale4_right: "mult4 a (scale4 k b) = scale4 k (mult4 a b)"
  by (simp add: mult4_def scale4_def algebra_simps)

lemma mult4_scale4_left: "mult4 (scale4 k a) b = scale4 k (mult4 a b)"
  by (simp add: mult4_def scale4_def algebra_simps)

lemma scale4_scale4: "scale4 k (scale4 l a) = scale4 (k * l) a"
  by (simp add: scale4_def)

lemma scale4_one: "scale4 1 a = a"
  by (simp add: scale4_def)

lemma mult4_Invert: "det4 a \<noteq> 0 \<Longrightarrow> mult4 a (Invert a) = unit4"
  by (simp add: Invert_def mult4_scale4_right mult4_adj4 scale4_scale4 scale4_one)

lemma Invert_mult4: "det4 a \<noteq> 0 \<Longrightarrow> mult4 (Invert a) a = unit4"
  by (simp add: Invert_def mult4_scale4_left adj4_mult4 scale4_scale4 scale4_one)

lemma Invert_det4_one: "det4 a = 1 \<Longrightarrow> Invert a = adj4 a"
  by (simp add: Invert_def scale4_one)

subsection \<open>The matrix of setBoost\<close>

lemma tmpboost_entries:
  "tmpboost alpha phi =
     \<lparr>e00 = 1 / cos phi, e01 = - cos alpha * sin phi,
      e02 = - tan phi * sin phi, e03 = - sin alpha * sin phi,
      e10 = - cos alpha * tan phi, e11 = 1, e12 = cos alpha * tan phi, e13 = 0,
      e20 = 0, e21 = - cos alpha * sin phi, e22 = cos phi, e23 = - sin alpha * sin phi,
      e30 = - sin alpha * tan phi, e31 = 0, e32 = sin alpha * tan phi, e33 = 1\<rparr>"
  by (simp add: tmpboost_def TMatrixD_4_4_def)

text \<open>
  The matrix and its inverse over any numbers \<open>a\<close>, \<open>b\<close>, \<open>c\<close>, \<open>s\<close> that behave as the
  cosine and sine of the two angles, with \<open>ic\<close> for \<open>1 / c\<close> and \<open>t\<close> for the tangent.
\<close>

lemma det4_forward:
  fixes a b c s t ic :: real
  assumes "a * a + b * b = 1" "s * s + c * c = 1" "c * ic = 1" "t = s * ic"
  shows "det4 \<lparr>e00 = ic, e01 = - a * s, e02 = - t * s, e03 = - b * s,
               e10 = - a * t, e11 = 1, e12 = a * t, e13 = 0,
               e20 = 0, e21 = - a * s, e22 = c, e23 = - b * s,
               e30 = - b * t, e31 = 0, e32 = b * t, e33 = 1\<rparr> = 1"
  using assms unfolding det4_def minors by simp algebra

lemma adj4_forward:
  fixes a b c s t ic :: real
  assumes "a * a + b * b = 1" "s * s + c * c = 1" "c * ic = 1" "t = s * ic"
  shows "adj4 \<lparr>e00 = ic, e01 = - a * s, e02 = - t * s, e03 = - b * s,
               e10 = - a * t, e11 = 1, e12 = a * t, e13 = 0,
               e20 = 0, e21 = - a * s, e22 = c, e23 = - b * s,
               e30 = - b * t, e31 = 0, e32 = b * t, e33 = 1\<rparr>
       = \<lparr>e00 = ic, e01 = a * t, e02 = 0, e03 = b * t,
          e10 = a * s, e11 = 1, e12 = - a * s, e13 = 0,
          e20 = t * s, e21 = a * t, e22 = c, e23 = b * t,
          e30 = b * s, e31 = 0, e32 = - b * s, e33 = 1\<rparr>"
  using assms unfolding adj4_def minors
  apply simp
  apply (intro conjI)
           apply algebra+
  done

lemma det4_backward:
  fixes a b c s t ic :: real
  assumes "a * a + b * b = 1" "s * s + c * c = 1" "c * ic = 1" "t = s * ic"
  shows "det4 \<lparr>e00 = ic, e01 = a * t, e02 = 0, e03 = b * t,
               e10 = a * s, e11 = 1, e12 = - a * s, e13 = 0,
               e20 = t * s, e21 = a * t, e22 = c, e23 = b * t,
               e30 = b * s, e31 = 0, e32 = - b * s, e33 = 1\<rparr> = 1"
  using assms unfolding det4_def minors by simp algebra

lemma adj4_backward:
  fixes a b c s t ic :: real
  assumes "a * a + b * b = 1" "s * s + c * c = 1" "c * ic = 1" "t = s * ic"
  shows "adj4 \<lparr>e00 = ic, e01 = a * t, e02 = 0, e03 = b * t,
               e10 = a * s, e11 = 1, e12 = - a * s, e13 = 0,
               e20 = t * s, e21 = a * t, e22 = c, e23 = b * t,
               e30 = b * s, e31 = 0, e32 = - b * s, e33 = 1\<rparr>
       = \<lparr>e00 = ic, e01 = - a * s, e02 = - t * s, e03 = - b * s,
          e10 = - a * t, e11 = 1, e12 = a * t, e13 = 0,
          e20 = 0, e21 = - a * s, e22 = c, e23 = - b * s,
          e30 = - b * t, e31 = 0, e32 = b * t, e33 = 1\<rparr>"
  using assms unfolding adj4_def minors
  apply simp
  apply (intro conjI)
           apply algebra+
  done

lemma angles:
  fixes alpha phi :: real
  assumes "cos phi \<noteq> 0"
  shows "cos alpha * cos alpha + sin alpha * sin alpha = 1"
    and "sin phi * sin phi + cos phi * cos phi = 1"
    and "cos phi * (1 / cos phi) = 1"
    and "tan phi = sin phi * (1 / cos phi)"
proof -
  show "cos alpha * cos alpha + sin alpha * sin alpha = 1"
    by (rule sin_cos_squared_add3)
  show "sin phi * sin phi + cos phi * cos phi = 1"
    using sin_cos_squared_add3 [of phi] by (simp add: add.commute)
  show "cos phi * (1 / cos phi) = 1"
    using assms by simp
  show "tan phi = sin phi * (1 / cos phi)"
    by (simp add: tan_def)
qed

lemma det4_tmpboost: "cos phi \<noteq> 0 \<Longrightarrow> det4 (tmpboost alpha phi) = 1"
  unfolding tmpboost_entries by (rule det4_forward [OF angles])

lemma Invert_tmpboost:
  assumes "cos phi \<noteq> 0"
  shows "Invert (tmpboost alpha phi) =
     \<lparr>e00 = 1 / cos phi, e01 = cos alpha * tan phi, e02 = 0, e03 = sin alpha * tan phi,
      e10 = cos alpha * sin phi, e11 = 1, e12 = - cos alpha * sin phi, e13 = 0,
      e20 = tan phi * sin phi, e21 = cos alpha * tan phi, e22 = cos phi,
      e23 = sin alpha * tan phi,
      e30 = sin alpha * sin phi, e31 = 0, e32 = - sin alpha * sin phi, e33 = 1\<rparr>"
proof -
  have "Invert (tmpboost alpha phi) = adj4 (tmpboost alpha phi)"
    using assms by (simp add: Invert_det4_one det4_tmpboost)
  also have "\<dots> = adj4
     \<lparr>e00 = 1 / cos phi, e01 = - cos alpha * sin phi,
      e02 = - tan phi * sin phi, e03 = - sin alpha * sin phi,
      e10 = - cos alpha * tan phi, e11 = 1, e12 = cos alpha * tan phi, e13 = 0,
      e20 = 0, e21 = - cos alpha * sin phi, e22 = cos phi, e23 = - sin alpha * sin phi,
      e30 = - sin alpha * tan phi, e31 = 0, e32 = sin alpha * tan phi, e33 = 1\<rparr>"
    by (simp only: tmpboost_entries)
  finally show ?thesis
    by (simp only: adj4_forward [OF angles [OF assms]])
qed

lemma Invert_Invert_tmpboost:
  assumes "cos phi \<noteq> 0"
  shows "Invert (Invert (tmpboost alpha phi)) = tmpboost alpha phi"
proof -
  let ?B = "\<lparr>e00 = 1 / cos phi, e01 = cos alpha * tan phi, e02 = 0, e03 = sin alpha * tan phi,
      e10 = cos alpha * sin phi, e11 = 1, e12 = - cos alpha * sin phi, e13 = 0,
      e20 = tan phi * sin phi, e21 = cos alpha * tan phi, e22 = cos phi,
      e23 = sin alpha * tan phi,
      e30 = sin alpha * sin phi, e31 = 0, e32 = - sin alpha * sin phi, e33 = 1\<rparr>"
  have d: "det4 ?B = 1"
    by (rule det4_backward [OF angles [OF assms]])
  have "Invert ?B = adj4 ?B"
    using d by (rule Invert_det4_one)
  also have "\<dots> = tmpboost alpha phi"
    unfolding tmpboost_entries by (rule adj4_backward [OF angles [OF assms]])
  finally show ?thesis
    by (simp only: Invert_tmpboost [OF assms])
qed

lemma tmpboost_0_0: "tmpboost 0 0 = unit4"
  by (simp add: tmpboost_def unit4_def TMatrixD_4_4_def)

lemma det4_unit4: "det4 unit4 = 1"
  by (simp add: det4_def unit4_def minors)

lemma adj4_unit4: "adj4 unit4 = unit4"
  by (simp add: adj4_def unit4_def minors)

lemma Invert_unit4: "Invert unit4 = unit4"
  by (simp add: Invert_det4_one det4_unit4 adj4_unit4)

subsection \<open>The stored matrix\<close>

text \<open>
  C3. \<open>setBoost\<close> first builds the matrix \<open>M\<close> with the sixteen entries of the
  specification. Where \<open>M\<close> is invertible, its determinant not zero, the matrix that
  \<open>setBoost\<close> stores and \<open>GetInvLorentzBoost\<close> hands out is the inverse of \<open>M\<close>: its
  product with \<open>M\<close> is the unit matrix from either side.
\<close>

theorem setBoost_stores_inverse:
  "det4 (tmpboost alpha phi) \<noteq> 0 \<Longrightarrow>
     tmpboost alpha phi =
       \<lparr>e00 = 1 / cos phi, e01 = - cos alpha * sin phi,
        e02 = - tan phi * sin phi, e03 = - sin alpha * sin phi,
        e10 = - cos alpha * tan phi, e11 = 1, e12 = cos alpha * tan phi, e13 = 0,
        e20 = 0, e21 = - cos alpha * sin phi, e22 = cos phi, e23 = - sin alpha * sin phi,
        e30 = - sin alpha * tan phi, e31 = 0, e32 = sin alpha * tan phi, e33 = 1\<rparr>
     \<and> boost_m (setBoost alpha phi g) = Invert (tmpboost alpha phi)
     \<and> mult4 (tmpboost alpha phi) (GetInvLorentzBoost (setBoost alpha phi g)) = unit4
     \<and> mult4 (GetInvLorentzBoost (setBoost alpha phi g)) (tmpboost alpha phi) = unit4"
proof (intro conjI)
  assume nonsingular: "det4 (tmpboost alpha phi) \<noteq> 0"
  show "tmpboost alpha phi =
       \<lparr>e00 = 1 / cos phi, e01 = - cos alpha * sin phi,
        e02 = - tan phi * sin phi, e03 = - sin alpha * sin phi,
        e10 = - cos alpha * tan phi, e11 = 1, e12 = cos alpha * tan phi, e13 = 0,
        e20 = 0, e21 = - cos alpha * sin phi, e22 = cos phi, e23 = - sin alpha * sin phi,
        e30 = - sin alpha * tan phi, e31 = 0, e32 = sin alpha * tan phi, e33 = 1\<rparr>"
    by (rule tmpboost_entries)
  show "boost_m (setBoost alpha phi g) = Invert (tmpboost alpha phi)"
    by (simp add: setBoost_def)
  show "mult4 (tmpboost alpha phi) (GetInvLorentzBoost (setBoost alpha phi g)) = unit4"
    using nonsingular by (simp add: GetInvLorentzBoost_def setBoost_def mult4_Invert)
  show "mult4 (GetInvLorentzBoost (setBoost alpha phi g)) (tmpboost alpha phi) = unit4"
    using nonsingular by (simp add: GetInvLorentzBoost_def setBoost_def Invert_mult4)
qed

theorem setBoost_stores_inverse_witness:
  "det4 (tmpboost (pi / 2) (pi / 4)) \<noteq> 0
   \<and> mult4 (tmpboost (pi / 2) (pi / 4))
        (GetInvLorentzBoost (setBoost (pi / 2) (pi / 4) nominal)) = unit4
   \<and> mult4 (GetInvLorentzBoost (setBoost (pi / 2) (pi / 4) nominal))
        (tmpboost (pi / 2) (pi / 4)) = unit4"
proof -
  have "cos (pi / 4 :: real) \<noteq> 0"
    by (simp add: cos_45)
  then have nonsingular: "det4 (tmpboost (pi / 2) (pi / 4)) \<noteq> 0"
    by (simp add: det4_tmpboost)
  from setBoost_stores_inverse [OF nonsingular, of nominal] nonsingular
  show ?thesis
    by blast
qed

text \<open>
  C7. For a \<open>phi\<close> whose cosine is not zero, \<open>phi\<close> away from plus or minus
  \<open>pi / 2\<close>, the matrix \<open>M\<close> of \<open>setBoost\<close> has determinant one, so it is not
  singular, and so has its inverse; inverting \<open>M\<close> and inverting the result gives
  \<open>M\<close> back.
\<close>

theorem tmpboost_Invert_roundtrip:
  "cos phi \<noteq> 0 \<Longrightarrow>
     det4 (tmpboost alpha phi) = 1
     \<and> det4 (Invert (tmpboost alpha phi)) = 1
     \<and> Invert (Invert (tmpboost alpha phi)) = tmpboost alpha phi"
proof (intro conjI)
  assume c: "cos phi \<noteq> 0"
  show "det4 (tmpboost alpha phi) = 1"
    using c by (rule det4_tmpboost)
  show "det4 (Invert (tmpboost alpha phi)) = 1"
    unfolding Invert_tmpboost [OF c] by (rule det4_backward [OF angles [OF c]])
  show "Invert (Invert (tmpboost alpha phi)) = tmpboost alpha phi"
    using c by (rule Invert_Invert_tmpboost)
qed

theorem tmpboost_Invert_roundtrip_witness:
  "cos (pi / 4 :: real) \<noteq> 0
   \<and> det4 (tmpboost (pi / 2) (pi / 4)) = 1
   \<and> Invert (Invert (tmpboost (pi / 2) (pi / 4))) = tmpboost (pi / 2) (pi / 4)"
proof -
  have c: "cos (pi / 4 :: real) \<noteq> 0"
    by (simp add: cos_45)
  from tmpboost_Invert_roundtrip [OF c, of "pi / 2"] c
  show ?thesis
    by simp
qed

text \<open>
  C8. With both angles zero the matrix \<open>M\<close> is the unit matrix, and so is the
  matrix that \<open>setBoost\<close> stores and \<open>GetInvLorentzBoost\<close> hands out.
\<close>

theorem setBoost_0_0_unit:
  "tmpboost 0 0 = unit4
   \<and> boost_m (setBoost 0 0 g) = unit4
   \<and> GetInvLorentzBoost (setBoost 0 0 g) = unit4"
  by (simp add: GetInvLorentzBoost_def setBoost_def tmpboost_0_0 Invert_unit4)

end
